theory Spec2Isabelle
  imports Complex_Main "HOL-Library.Char_ord" "HOL-Library.List_Lexorder"
begin

section \<open>Data tables\<close>

text \<open>
  The program reads four CSV files into module-level data frames (\<^verbatim>\<open>bets\<close>,
  \<^verbatim>\<open>sessions\<close>, \<^verbatim>\<open>transactions\<close>, \<^verbatim>\<open>users\<close>) and never mutates them after the
  date conversion at start-up. A data frame is a list of rows, in file order. Every table has
  a \<^verbatim>\<open>user_id\<close> column, so every row type extends the record \<open>row\<close>.

  Identifiers are integers, timestamps are seconds on a linear clock, amounts are exact
  numbers, and \<^verbatim>\<open>device_type\<close>, \<^verbatim>\<open>transaction_type\<close> are the strings of the file: the
  program compares them with string literals and validates nothing. A \<^verbatim>\<open>country\<close> cell may
  be empty, which pandas reads as a missing value (\<open>None\<close> here).
\<close>

record row =
  user_id :: int

record bet = row +
  bet_time :: int
  bet_amount :: real

record session = row +
  device_type :: string
  start_time :: int
  end_time :: int

record transaction = row +
  transaction_type :: string
  timestamp :: int
  amount :: real

record user = row +
  country :: "string option"
  registration_date :: int

record tables =
  bets :: "bet list"
  sessions :: "session list"
  transactions :: "transaction list"
  users :: "user list"

text \<open>
  \<^verbatim>\<open>sessions["date"] = sessions["start_time"].dt.date\<close>: the calendar day of the start
  time, as a day number.
\<close>

definition date :: "session \<Rightarrow> int" where
  "date s = start_time s div 86400"

section \<open>Device segmentation\<close>

text \<open>
  \<^verbatim>\<open>get_device_users\<close> calls itself for \<^verbatim>\<open>"all"\<close>; the two inner calls are on
  \<^verbatim>\<open>"mobile"\<close> and \<^verbatim>\<open>"desktop"\<close>, which return at once. A Python \<^verbatim>\<open>set\<close> of user
  ids is a HOL set, and \<^verbatim>\<open>len\<close> of it is \<open>card\<close>.
\<close>

function get_device_users :: "tables \<Rightarrow> string \<Rightarrow> int set" where
  "get_device_users T device =
     (if device = ''mobile''
      then set (map user_id (filter (\<lambda>s. device_type s = ''mobile'') (sessions T)))
      else if device = ''desktop''
      then set (map user_id (filter (\<lambda>s. device_type s = ''desktop'') (sessions T)))
      else if device = ''all''
      then (let mobile_users = get_device_users T ''mobile'';
                desktop_users = get_device_users T ''desktop''
            in mobile_users \<union> desktop_users)
      else {})"
  by pat_completeness auto
termination
  by (relation "measure (\<lambda>(T, device). if device = ''all'' then 1 else 0)") auto

declare get_device_users.simps [simp del]

section \<open>Activity metrics\<close>

text \<open>
  Python exceptions the modelled code can meet. \<open>ValueError\<close> is what pandas raises when a
  list assigned as a column has not the length of the frame; the others stand for whatever the
  country lookup may raise.
\<close>

datatype error = ValueError | AttributeError | KeyError | LookupError | TypeError

text \<open>\<^verbatim>\<open>Series.nunique()\<close>: the number of distinct values.\<close>

definition nunique :: "int list \<Rightarrow> nat" where
  "nunique xs = length (remdups xs)"

text \<open>
  The local \<^verbatim>\<open>filtered_sessions\<close> of \<^verbatim>\<open>calculate_metrics\<close>: for \<^verbatim>\<open>"all"\<close> the
  sessions of the users of the segment, otherwise the sessions whose \<^verbatim>\<open>device_type\<close> is the
  given string.
\<close>

definition filtered_sessions :: "tables \<Rightarrow> string \<Rightarrow> session list" where
  "filtered_sessions T device =
     (if device = ''all''
      then (let dev_users = get_device_users T ''all''
            in filter (\<lambda>s. user_id s \<in> dev_users) (sessions T))
      else filter (\<lambda>s. device_type s = device) (sessions T))"

text \<open>
  \<^verbatim>\<open>groupby("date")["user_id"].nunique().reset_index(name="DAU")\<close>: one row per distinct
  date, the dates ascending (pandas sorts the group keys), each with the number of distinct
  users of its sessions.
\<close>

definition groupby_date_nunique :: "session list \<Rightarrow> (int \<times> nat) list" where
  "groupby_date_nunique fs =
     map (\<lambda>d. (d, nunique (map user_id (filter (\<lambda>s. date s = d) fs))))
       (sort (remdups (map date fs)))"

text \<open>
  The \<^verbatim>\<open>for d in dates\<close> loop, with the two lists it appends to. \<^verbatim>\<open>pd.Timedelta(days=6)\<close>
  is six day numbers.
\<close>

fun window_loop :: "session list \<Rightarrow> int list \<Rightarrow> nat list \<Rightarrow> nat list \<Rightarrow> nat list \<times> nat list" where
  "window_loop fs [] wau mau = (wau, mau)"
| "window_loop fs (d # dates) wau mau =
     (let wau_count = nunique (map user_id
            (filter (\<lambda>s. date s \<ge> d - 6 \<and> date s \<le> d) fs));
          mau_count = nunique (map user_id
            (filter (\<lambda>s. date s \<ge> d - 29 \<and> date s \<le> d) fs))
      in window_loop fs dates (wau @ [wau_count]) (mau @ [mau_count]))"

text \<open>
  \<^verbatim>\<open>frame["WAU"] = values\<close>: pandas pairs the list with the rows by position and raises
  \<^verbatim>\<open>ValueError\<close> when the lengths differ.
\<close>

definition set_column :: "'a list \<Rightarrow> 'b list \<Rightarrow> error + ('a \<times> 'b) list" where
  "set_column frame vals =
     (if length vals = length frame then Inr (zip frame vals) else Inl ValueError)"

record metrics_row =
  m_date :: int
  DAU :: nat
  WAU :: nat
  MAU :: nat

definition calculate_metrics :: "tables \<Rightarrow> string \<Rightarrow> error + metrics_row list" where
  "calculate_metrics T device =
     (let fs = filtered_sessions T device;
          dau = groupby_date_nunique fs;
          dates = sort (remdups (map date fs));
          (wau, mau) = window_loop fs dates [] []
      in case set_column dau wau of
           Inl e \<Rightarrow> Inl e
         | Inr dau_w \<Rightarrow>
             (case set_column dau_w mau of
                Inl e \<Rightarrow> Inl e
              | Inr dau_wm \<Rightarrow>
                  Inr (map (\<lambda>(((d, a), w), m). \<lparr>m_date = d, DAU = a, WAU = w, MAU = m\<rparr>)
                         dau_wm)))"

section \<open>Funnel\<close>

text \<open>The three locals of \<^verbatim>\<open>calculate_funnel\<close>, then the function.\<close>

definition registrations_users :: "tables \<Rightarrow> string \<Rightarrow> int set" where
  "registrations_users T device = get_device_users T device"

definition deposit_users :: "tables \<Rightarrow> string \<Rightarrow> int set" where
  "deposit_users T device =
     set (map user_id
       (filter (\<lambda>t. transaction_type t = ''deposit'' \<and> user_id t \<in> registrations_users T device)
          (transactions T)))"

definition bet_users :: "tables \<Rightarrow> string \<Rightarrow> int set" where
  "bet_users T device =
     set (map user_id (filter (\<lambda>b. user_id b \<in> deposit_users T device) (bets T)))"

definition calculate_funnel :: "tables \<Rightarrow> string \<Rightarrow> nat \<times> nat \<times> nat" where
  "calculate_funnel T device =
     (card (registrations_users T device), card (deposit_users T device),
      card (bet_users T device))"

section \<open>GGR by country\<close>

text \<open>
  The local \<^verbatim>\<open>filtered_bets\<close> of \<^verbatim>\<open>ggr_by_country\<close>, with both branches of the source.
\<close>

definition filtered_bets :: "tables \<Rightarrow> string \<Rightarrow> bet list" where
  "filtered_bets T device =
     (if device = ''all''
      then (let dev_users = get_device_users T ''all''
            in filter (\<lambda>b. user_id b \<in> dev_users) (bets T))
      else (let dev_users = get_device_users T device
            in filter (\<lambda>b. user_id b \<in> dev_users) (bets T)))"

text \<open>
  \<^verbatim>\<open>filtered_bets.merge(users, on="user_id", how="left")\<close>: every bet row, in order, once
  for each user row with its \<^verbatim>\<open>user_id\<close>, and once with the user columns missing when there
  is none.
\<close>

definition merge_left :: "bet list \<Rightarrow> user list \<Rightarrow> (bet \<times> user option) list" where
  "merge_left bs us =
     concat (map (\<lambda>b. case filter (\<lambda>u. user_id u = user_id b) us of
                          [] \<Rightarrow> [(b, None)]
                        | ms \<Rightarrow> map (\<lambda>u. (b, Some u)) ms) bs)"

text \<open>The \<^verbatim>\<open>country\<close> cell of a joined row.\<close>

definition joined_country :: "bet \<times> user option \<Rightarrow> string option" where
  "joined_country r = (case snd r of None \<Rightarrow> None | Some u \<Rightarrow> country u)"

text \<open>
  \<^verbatim>\<open>groupby("country")["bet_amount"].sum().reset_index(name="GGR")\<close>. With the defaults of
  \<^verbatim>\<open>groupby\<close> (\<^verbatim>\<open>sort=True\<close>, \<^verbatim>\<open>dropna=True\<close>) the group keys are the distinct values of
  the column that are not missing, ascending; a row whose key is missing belongs to no group.
\<close>

definition groupby_country_sum :: "(bet \<times> user option) list \<Rightarrow> (string \<times> real) list" where
  "groupby_country_sum rs =
     map (\<lambda>c. (c, sum_list (map (\<lambda>r. bet_amount (fst r))
                    (filter (\<lambda>r. joined_country r = Some c) rs))))
       (sort (remdups (map the (filter (\<lambda>k. k \<noteq> None) (map joined_country rs)))))"

text \<open>
  \<^verbatim>\<open>pycountry\<close> is an external library, so \<^verbatim>\<open>pycountry.countries.get(alpha_2=code)\<close> is a
  parameter \<open>get\<close>: for a code it raises (\<open>Inl\<close>), returns \<^verbatim>\<open>None\<close> (\<open>Inr None\<close>) or
  returns a country object, of which only the name is read (\<open>Inr (Some name)\<close>).
  \<open>lookup_name\<close> is the body of the \<^verbatim>\<open>try\<close>: reading \<^verbatim>\<open>.name\<close> of \<^verbatim>\<open>None\<close> raises
  \<^verbatim>\<open>AttributeError\<close>. \<open>country_name\<close> adds the bare \<^verbatim>\<open>except\<close>, which catches everything.
\<close>

definition lookup_name :: "(string \<Rightarrow> error + string option) \<Rightarrow> string \<Rightarrow> error + string" where
  "lookup_name get code =
     (case get code of
        Inl e \<Rightarrow> Inl e
      | Inr None \<Rightarrow> Inl AttributeError
      | Inr (Some name) \<Rightarrow> Inr name)"

definition country_name :: "(string \<Rightarrow> error + string option) \<Rightarrow> string \<Rightarrow> error + string" where
  "country_name get code =
     (case lookup_name get code of
        Inr name \<Rightarrow> Inr name
      | Inl e \<Rightarrow> Inr code)"

text \<open>
  \<^verbatim>\<open>ggr_country["country"].apply(f)\<close>: \<open>f\<close> on every cell of the column, top to bottom; an
  exception of \<open>f\<close> ends the whole call.
\<close>

fun apply_country :: "(string \<Rightarrow> error + string) \<Rightarrow> (string \<times> real) list \<Rightarrow>
    error + (string \<times> real) list" where
  "apply_country f [] = Inr []"
| "apply_country f ((c, g) # rows) =
     (case f c of
        Inl e \<Rightarrow> Inl e
      | Inr c' \<Rightarrow>
          (case apply_country f rows of
             Inl e \<Rightarrow> Inl e
           | Inr rows' \<Rightarrow> Inr ((c', g) # rows')))"

definition ggr_by_country :: "(string \<Rightarrow> error + string option) \<Rightarrow> tables \<Rightarrow> string \<Rightarrow>
    error + (string \<times> real) list" where
  "ggr_by_country get T device =
     (let bets_users = merge_left (filtered_bets T device) (users T);
          ggr_country = groupby_country_sum bets_users
      in apply_country (country_name get) ggr_country)"

text \<open>
  The single uniform computation, for comparison with the two branches: the bets of the users
  of \<open>get_device_users T device\<close>, left-joined to the users, grouped by country, the amounts
  summed.
\<close>

definition ggr_uniform :: "tables \<Rightarrow> string \<Rightarrow> (string \<times> real) list" where
  "ggr_uniform T device =
     groupby_country_sum
       (merge_left (filter (\<lambda>b. user_id b \<in> get_device_users T device) (bets T)) (users T))"

section \<open>Sample tables\<close>

text \<open>
  A small instance of the four tables, used to run the functions. User 1 has sessions on both
  platforms, places a bet before the only deposit and has no row in \<open>users\<close>; user 3 has a
  session on a third platform; user 5 has a row in \<open>users\<close> with an empty country.
  \<open>sample_get\<close> knows one code, raises on another and returns \<^verbatim>\<open>None\<close> otherwise.
\<close>

definition sample_tables :: tables where
  "sample_tables =
     \<lparr>bets =
        [\<lparr>user_id = 1, bet_time = 5, bet_amount = 5\<rparr>,
         \<lparr>user_id = 2, bet_time = 90000, bet_amount = 3\<rparr>,
         \<lparr>user_id = 2, bet_time = 90500, bet_amount = 4\<rparr>,
         \<lparr>user_id = 3, bet_time = 610000, bet_amount = 4\<rparr>,
         \<lparr>user_id = 4, bet_time = 260000, bet_amount = 2\<rparr>,
         \<lparr>user_id = 5, bet_time = 700000, bet_amount = 1\<rparr>],
      sessions =
        [\<lparr>user_id = 1, device_type = ''mobile'', start_time = 0, end_time = 600\<rparr>,
         \<lparr>user_id = 2, device_type = ''desktop'', start_time = 86400, end_time = 90000\<rparr>,
         \<lparr>user_id = 4, device_type = ''mobile'', start_time = 259300, end_time = 259900\<rparr>,
         \<lparr>user_id = 1, device_type = ''desktop'', start_time = 604800, end_time = 604900\<rparr>,
         \<lparr>user_id = 3, device_type = ''tablet'', start_time = 604850, end_time = 604950\<rparr>,
         \<lparr>user_id = 5, device_type = ''mobile'', start_time = 691200, end_time = 691300\<rparr>],
      transactions =
        [\<lparr>user_id = 1, transaction_type = ''deposit'', timestamp = 9, amount = 20\<rparr>,
         \<lparr>user_id = 2, transaction_type = ''withdrawal'', timestamp = 95000, amount = 7\<rparr>,
         \<lparr>user_id = 4, transaction_type = ''deposit'', timestamp = 259000, amount = 10\<rparr>,
         \<lparr>user_id = 3, transaction_type = ''deposit'', timestamp = 600000, amount = 10\<rparr>],
      users =
        [\<lparr>user_id = 2, country = Some ''UA'', registration_date = 0\<rparr>,
         \<lparr>user_id = 3, country = Some ''PL'', registration_date = 0\<rparr>,
         \<lparr>user_id = 4, country = Some ''??'', registration_date = 0\<rparr>,
         \<lparr>user_id = 5, country = None, registration_date = 0\<rparr>]\<rparr>"

definition sample_get :: "string \<Rightarrow> error + string option" where
  "sample_get code =
     (if code = ''UA'' then Inr (Some ''Ukraine'')
      else if code = ''??'' then Inl LookupError
      else Inr None)"

text \<open>The same tables with every bet time, timestamp and amount changed.\<close>

definition sample_tables_shifted :: tables where
  "sample_tables_shifted =
     sample_tables
       \<lparr>bets := map (\<lambda>b. b\<lparr>bet_time := bet_time b + 1000000, bet_amount := 2 * bet_amount b\<rparr>)
                  (bets sample_tables),
        transactions := map (\<lambda>t. t\<lparr>timestamp := 0, amount := 1\<rparr>) (transactions sample_tables)\<rparr>"

section \<open>Properties of the device segmentation\<close>

lemma get_device_users_mobile:
  "get_device_users T ''mobile'' =
     set (map user_id (filter (\<lambda>s. device_type s = ''mobile'') (sessions T)))"
  by (subst get_device_users.simps) simp

lemma get_device_users_desktop:
  "get_device_users T ''desktop'' =
     set (map user_id (filter (\<lambda>s. device_type s = ''desktop'') (sessions T)))"
  by (subst get_device_users.simps) simp

lemma get_device_users_all:
  "get_device_users T ''all'' =
     get_device_users T ''mobile'' \<union> get_device_users T ''desktop''"
  by (subst get_device_users.simps) (simp add: Let_def)

lemma get_device_users_other:
  "device \<noteq> ''mobile'' \<Longrightarrow> device \<noteq> ''desktop'' \<Longrightarrow> device \<noteq> ''all'' \<Longrightarrow>
     get_device_users T device = {}"
  by (subst get_device_users.simps) simp

lemma finite_get_device_users: "finite (get_device_users T device)"
  by (subst get_device_users.simps) (simp add: Let_def get_device_users_mobile get_device_users_desktop)

section \<open>Properties of the activity metrics\<close>

lemma nunique_card: "nunique (map f (filter P xs)) = card (f ` {x \<in> set xs. P x})"
  by (simp add: nunique_def length_remdups_card_conv)

lemma zip_map_same: "zip (map f xs) (map g xs) = map (\<lambda>x. (f x, g x)) xs"
  by (induction xs) simp_all

text \<open>The loop appends one count per date, in the order of the dates.\<close>

lemma window_loop_eq:
  "window_loop fs dates wau mau =
     (wau @ map (\<lambda>d. nunique (map user_id
                 (filter (\<lambda>s. date s \<ge> d - 6 \<and> date s \<le> d) fs))) dates,
      mau @ map (\<lambda>d. nunique (map user_id
                 (filter (\<lambda>s. date s \<ge> d - 29 \<and> date s \<le> d) fs))) dates)"
  by (induction dates arbitrary: wau mau) (simp_all add: Let_def)

text \<open>
  Both column assignments succeed, since the group keys and \<^verbatim>\<open>dates\<close> are the same list;
  the frame returned has one row per date of the filtered sessions.
\<close>

lemma calculate_metrics_rows:
  "calculate_metrics T device =
     Inr (map (\<lambda>d. \<lparr>m_date = d,
                     DAU = nunique (map user_id
                       (filter (\<lambda>s. date s = d) (filtered_sessions T device))),
                     WAU = nunique (map user_id
                       (filter (\<lambda>s. date s \<ge> d - 6 \<and> date s \<le> d) (filtered_sessions T device))),
                     MAU = nunique (map user_id
                       (filter (\<lambda>s. date s \<ge> d - 29 \<and> date s \<le> d) (filtered_sessions T device)))\<rparr>)
            (sort (remdups (map date (filtered_sessions T device)))))"
  by (simp add: calculate_metrics_def Let_def window_loop_eq set_column_def
      groupby_date_nunique_def zip_map_same)

text \<open>
  C2. For every device value, \<^verbatim>\<open>calculate_metrics\<close> returns a frame, and for every date
  \<open>d\<close> of a filtered session the frame has a row for \<open>d\<close> whose WAU is the number of
  distinct users of the filtered sessions dated within \<open>[d - 6, d]\<close> and whose MAU is the
  number of distinct users of the filtered sessions dated within \<open>[d - 29, d]\<close>, both ends
  included.
\<close>

theorem calculate_metrics_windows:
  "\<exists>rows. calculate_metrics T device = Inr rows \<and>
     (\<forall>d \<in> date ` set (filtered_sessions T device).
        (\<exists>r \<in> set rows. m_date r = d) \<and>
        (\<forall>r \<in> set rows. m_date r = d \<longrightarrow>
           WAU r = card (user_id ` {s \<in> set (filtered_sessions T device).
                                      d - 6 \<le> date s \<and> date s \<le> d}) \<and>
           MAU r = card (user_id ` {s \<in> set (filtered_sessions T device).
                                      d - 29 \<le> date s \<and> date s \<le> d})))"
  unfolding calculate_metrics_rows nunique_card by force

theorem calculate_metrics_windows_witness:
  "(8::int) \<in> date ` set (filtered_sessions sample_tables ''mobile'') \<and>
   (\<exists>rows. calculate_metrics sample_tables ''mobile'' = Inr rows \<and>
      (\<exists>r \<in> set rows. m_date r = 8 \<and> WAU r = 2 \<and> MAU r = 3))"
proof -
  let ?fs = "filtered_sessions sample_tables ''mobile''"
  have d: "(8::int) \<in> date ` set ?fs"
    by code_simp
  have "card (user_id ` set (filter (\<lambda>s. 8 - 6 \<le> date s \<and> date s \<le> 8) ?fs)) = 2"
    by code_simp
  then have w: "card (user_id ` {s \<in> set ?fs. 8 - 6 \<le> date s \<and> date s \<le> 8}) = 2"
    by simp
  have "card (user_id ` set (filter (\<lambda>s. 8 - 29 \<le> date s \<and> date s \<le> 8) ?fs)) = 3"
    by code_simp
  then have m: "card (user_id ` {s \<in> set ?fs. 8 - 29 \<le> date s \<and> date s \<le> 8}) = 3"
    by simp
  from calculate_metrics_windows [of sample_tables "''mobile''"]
  obtain rows where rows: "calculate_metrics sample_tables ''mobile'' = Inr rows"
    and every: "\<forall>d \<in> date ` set ?fs.
        (\<exists>r \<in> set rows. m_date r = d) \<and>
        (\<forall>r \<in> set rows. m_date r = d \<longrightarrow>
           WAU r = card (user_id ` {s \<in> set ?fs. d - 6 \<le> date s \<and> date s \<le> d}) \<and>
           MAU r = card (user_id ` {s \<in> set ?fs. d - 29 \<le> date s \<and> date s \<le> d}))"
    by blast
  from every d obtain r where "r \<in> set rows" "m_date r = 8"
    by blast
  with every d w m have "r \<in> set rows \<and> m_date r = 8 \<and> WAU r = 2 \<and> MAU r = 3"
    by fastforce
  with rows d show ?thesis by blast
qed

text \<open>
  C4. For every device value, \<^verbatim>\<open>calculate_metrics\<close> returns a frame whose rows are those
  of the dates with at least one filtered session, and every row has
  \<open>DAU \<le> WAU \<le> MAU\<close>.
\<close>

theorem calculate_metrics_ordered:
  "\<exists>rows. calculate_metrics T device = Inr rows \<and>
     (\<forall>d \<in> date ` set (filtered_sessions T device). \<exists>r \<in> set rows. m_date r = d) \<and>
     (\<forall>r \<in> set rows. m_date r \<in> date ` set (filtered_sessions T device) \<and>
        DAU r \<le> WAU r \<and> WAU r \<le> MAU r)"
proof -
  let ?fs = "filtered_sessions T device"
  have fin: "\<And>P. finite (user_id ` {s \<in> set ?fs. P s})"
    by simp
  have dw: "card (user_id ` {s \<in> set ?fs. date s = d})
      \<le> card (user_id ` {s \<in> set ?fs. d - 6 \<le> date s \<and> date s \<le> d})" for d
    by (rule card_mono[OF fin]) auto
  have wm: "card (user_id ` {s \<in> set ?fs. d - 6 \<le> date s \<and> date s \<le> d})
      \<le> card (user_id ` {s \<in> set ?fs. d - 29 \<le> date s \<and> date s \<le> d})" for d
    by (rule card_mono[OF fin]) auto
  show ?thesis
    unfolding calculate_metrics_rows nunique_card using dw wm by force
qed

theorem calculate_metrics_ordered_witness:
  "(8::int) \<in> date ` set (filtered_sessions sample_tables ''all'') \<and>
   (\<exists>rows. calculate_metrics sample_tables ''all'' = Inr rows \<and>
      \<lparr>m_date = 8, DAU = 1, WAU = 3, MAU = 4\<rparr> \<in> set rows \<and>
      (\<exists>r \<in> set rows. m_date r = 8 \<and> DAU r \<le> WAU r \<and> WAU r \<le> MAU r))"
proof -
  let ?fs = "filtered_sessions sample_tables ''all''"
  have d: "(8::int) \<in> date ` set ?fs"
    by code_simp
  have run: "calculate_metrics sample_tables ''all'' =
      Inr [\<lparr>m_date = 0, DAU = 1, WAU = 1, MAU = 1\<rparr>,
           \<lparr>m_date = 1, DAU = 1, WAU = 2, MAU = 2\<rparr>,
           \<lparr>m_date = 3, DAU = 1, WAU = 3, MAU = 3\<rparr>,
           \<lparr>m_date = 7, DAU = 1, WAU = 3, MAU = 3\<rparr>,
           \<lparr>m_date = 8, DAU = 1, WAU = 3, MAU = 4\<rparr>]"
    by code_simp
  from calculate_metrics_ordered [of sample_tables "''all''"]
  obtain rows where rows: "calculate_metrics sample_tables ''all'' = Inr rows"
    and present: "\<forall>d \<in> date ` set ?fs. \<exists>r \<in> set rows. m_date r = d"
    and ordered: "\<forall>r \<in> set rows. m_date r \<in> date ` set ?fs \<and>
        DAU r \<le> WAU r \<and> WAU r \<le> MAU r"
    by blast
  from present d obtain r where r: "r \<in> set rows" "m_date r = 8"
    by blast
  with ordered have "DAU r \<le> WAU r \<and> WAU r \<le> MAU r"
    by blast
  moreover from rows run have "\<lparr>m_date = 8, DAU = 1, WAU = 3, MAU = 4\<rparr> \<in> set rows"
    by auto
  ultimately show ?thesis using rows d r by blast
qed

section \<open>Properties of the segments\<close>

text \<open>
  C5. The segment of \<^verbatim>\<open>"all"\<close> is the union of the mobile and the desktop segment, contains
  each of them, and counts a user of both once: its size is the sum of the two sizes less the
  number of users in both.
\<close>

theorem get_device_users_all_union:
  "get_device_users T ''all'' = get_device_users T ''mobile'' \<union> get_device_users T ''desktop'' \<and>
   get_device_users T ''all'' \<supseteq> get_device_users T ''mobile'' \<and>
   get_device_users T ''all'' \<supseteq> get_device_users T ''desktop'' \<and>
   card (get_device_users T ''all'') +
     card (get_device_users T ''mobile'' \<inter> get_device_users T ''desktop'') =
   card (get_device_users T ''mobile'') + card (get_device_users T ''desktop'')"
proof -
  have u: "get_device_users T ''all'' =
      get_device_users T ''mobile'' \<union> get_device_users T ''desktop''"
    by (rule get_device_users_all)
  have "card (get_device_users T ''mobile'' \<union> get_device_users T ''desktop'') +
      card (get_device_users T ''mobile'' \<inter> get_device_users T ''desktop'') =
    card (get_device_users T ''mobile'') + card (get_device_users T ''desktop'')"
    by (rule card_Un_Int [symmetric]) (rule finite_get_device_users)+
  with u show ?thesis by auto
qed

theorem get_device_users_all_union_witness:
  "1 \<in> get_device_users sample_tables ''mobile'' \<and>
   1 \<in> get_device_users sample_tables ''desktop'' \<and>
   get_device_users sample_tables ''all'' = {1, 2, 4, 5} \<and>
   card (get_device_users sample_tables ''all'') = 4 \<and>
   card (get_device_users sample_tables ''mobile'') = 3 \<and>
   card (get_device_users sample_tables ''desktop'') = 2"
proof -
  have m: "get_device_users sample_tables ''mobile'' = {1, 4, 5}"
    by (simp add: get_device_users_mobile sample_tables_def)
  have d: "get_device_users sample_tables ''desktop'' = {2, 1}"
    by (simp add: get_device_users_desktop sample_tables_def)
  from get_device_users_all_union [of sample_tables]
  have "get_device_users sample_tables ''all'' =
      get_device_users sample_tables ''mobile'' \<union> get_device_users sample_tables ''desktop''"
    by (rule conjunct1)
  with m d have a: "get_device_users sample_tables ''all'' = {1, 2, 4, 5}"
    by auto
  show ?thesis unfolding a m d by simp
qed

text \<open>
  C6. For \<^verbatim>\<open>"mobile"\<close> and \<^verbatim>\<open>"desktop"\<close> the users of the sessions that
  \<^verbatim>\<open>calculate_metrics\<close> selects by \<^verbatim>\<open>device_type == device\<close> are the users of
  \<^verbatim>\<open>get_device_users(device)\<close>.
\<close>

theorem raw_filter_agrees_with_segment:
  "device = ''mobile'' \<or> device = ''desktop'' \<Longrightarrow>
     set (map user_id (filtered_sessions T device)) = get_device_users T device"
  by (auto simp: filtered_sessions_def get_device_users_mobile get_device_users_desktop)

theorem raw_filter_agrees_with_segment_witness:
  "set (map user_id (filtered_sessions sample_tables ''desktop'')) =
     get_device_users sample_tables ''desktop'' \<and>
   get_device_users sample_tables ''desktop'' = {1, 2}"
proof -
  have "get_device_users sample_tables ''desktop'' = {1, 2}"
    by (auto simp add: get_device_users_desktop sample_tables_def)
  with raw_filter_agrees_with_segment [of "''desktop''" sample_tables]
  show ?thesis by simp
qed

section \<open>Properties of the funnel\<close>

lemma finite_deposit_users: "finite (deposit_users T device)"
  by (simp add: deposit_users_def)

lemma deposit_users_subset: "deposit_users T device \<subseteq> registrations_users T device"
  by (auto simp: deposit_users_def)

lemma bet_users_subset: "bet_users T device \<subseteq> deposit_users T device"
  by (auto simp: bet_users_def)

text \<open>
  C3. For every device value the three counts of \<^verbatim>\<open>calculate_funnel\<close> do not increase
  from left to right, the depositors being users of the segment and the bettors being
  depositors.
\<close>

theorem calculate_funnel_monotone:
  "(case calculate_funnel T device of
      (registrations_count, deposit_count, bet_count) \<Rightarrow>
        registrations_count \<ge> deposit_count \<and> deposit_count \<ge> bet_count) \<and>
   deposit_users T device \<subseteq> registrations_users T device \<and>
   bet_users T device \<subseteq> deposit_users T device"
proof -
  have "card (deposit_users T device) \<le> card (registrations_users T device)"
    by (rule card_mono) (simp_all add: registrations_users_def finite_get_device_users
        deposit_users_subset [unfolded registrations_users_def])
  moreover have "card (bet_users T device) \<le> card (deposit_users T device)"
    by (rule card_mono) (simp_all add: finite_deposit_users bet_users_subset)
  ultimately show ?thesis
    by (simp add: calculate_funnel_def deposit_users_subset bet_users_subset)
qed

theorem calculate_funnel_monotone_witness:
  "calculate_funnel sample_tables ''all'' = (4, 2, 2) \<and>
   deposit_users sample_tables ''all'' \<subseteq> registrations_users sample_tables ''all'' \<and>
   bet_users sample_tables ''all'' \<subseteq> deposit_users sample_tables ''all''"
proof -
  have run: "calculate_funnel sample_tables ''all'' = (4, 2, 2)"
    by code_simp
  from calculate_funnel_monotone [of sample_tables "''all''"]
  have "deposit_users sample_tables ''all'' \<subseteq> registrations_users sample_tables ''all'' \<and>
      bet_users sample_tables ''all'' \<subseteq> deposit_users sample_tables ''all''"
    by (rule conjunct2)
  with run show ?thesis
    by (rule conjI)
qed

text \<open>
  C7, as the code has it. For a device value other than \<^verbatim>\<open>"mobile"\<close>, \<^verbatim>\<open>"desktop"\<close> and
  \<^verbatim>\<open>"all"\<close> the segment is empty and the funnel is \<open>(0, 0, 0)\<close>, but
  \<^verbatim>\<open>calculate_metrics\<close> selects the sessions by their \<^verbatim>\<open>device_type\<close> and not by the
  segment: with a session of type \<^verbatim>\<open>"tablet"\<close> in the table, the frame for \<^verbatim>\<open>"tablet"\<close>
  has a row.
\<close>

theorem unknown_device_metrics_counterexample:
  "get_device_users sample_tables ''tablet'' = {} \<and>
   calculate_metrics sample_tables ''tablet'' = Inr [\<lparr>m_date = 7, DAU = 1, WAU = 1, MAU = 1\<rparr>]"
proof -
  have "get_device_users sample_tables ''tablet'' = {}"
    by (simp add: get_device_users_other)
  moreover have "calculate_metrics sample_tables ''tablet'' =
      Inr [\<lparr>m_date = 7, DAU = 1, WAU = 1, MAU = 1\<rparr>]"
    by code_simp
  ultimately show ?thesis by simp
qed

lemma sort_eq_Nil_iff: "sort xs = [] \<longleftrightarrow> xs = []"
  by (metis length_sort length_0_conv)

text \<open>
  C7, amended. For such a device value the segment is empty, the funnel is \<open>(0, 0, 0)\<close>,
  and \<^verbatim>\<open>calculate_metrics\<close> returns a frame that has no rows exactly when no session has
  that value as its \<^verbatim>\<open>device_type\<close>.
\<close>

theorem unknown_device_empty:
  assumes "device \<noteq> ''mobile''" and "device \<noteq> ''desktop''" and "device \<noteq> ''all''"
  shows "get_device_users T device = {} \<and>
    calculate_funnel T device = (0, 0, 0) \<and>
    (\<exists>rows. calculate_metrics T device = Inr rows \<and>
       (rows = [] \<longleftrightarrow> (\<forall>s \<in> set (sessions T). device_type s \<noteq> device)))"
proof -
  have seg: "get_device_users T device = {}"
    using assms by (rule get_device_users_other)
  have dep: "deposit_users T device = {}"
    using deposit_users_subset [of T device] by (simp add: registrations_users_def seg)
  have bet: "bet_users T device = {}"
    using bet_users_subset [of T device] by (simp add: dep)
  have funnel: "calculate_funnel T device = (0, 0, 0)"
    by (simp add: calculate_funnel_def registrations_users_def seg dep bet)
  have fs: "filtered_sessions T device = filter (\<lambda>s. device_type s = device) (sessions T)"
    using assms by (simp add: filtered_sessions_def)
  have "(sort (remdups (map date (filtered_sessions T device))) = []) \<longleftrightarrow>
      (\<forall>s \<in> set (sessions T). device_type s \<noteq> device)"
    by (simp add: sort_eq_Nil_iff fs filter_empty_conv)
  then have "\<exists>rows. calculate_metrics T device = Inr rows \<and>
       (rows = [] \<longleftrightarrow> (\<forall>s \<in> set (sessions T). device_type s \<noteq> device))"
    unfolding calculate_metrics_rows by simp
  with seg funnel show ?thesis by simp
qed

theorem unknown_device_empty_witness:
  "''tv'' \<noteq> ''mobile'' \<and> ''tv'' \<noteq> ''desktop'' \<and> ''tv'' \<noteq> ''all'' \<and>
   ''tv'' \<notin> device_type ` set (sessions sample_tables) \<and>
   get_device_users sample_tables ''tv'' = {} \<and>
   calculate_funnel sample_tables ''tv'' = (0, 0, 0) \<and>
   calculate_metrics sample_tables ''tv'' = Inr []"
proof -
  have dev: "''tv'' \<noteq> ''mobile''" "''tv'' \<noteq> ''desktop''" "''tv'' \<noteq> ''all''"
    by simp_all
  have no: "''tv'' \<notin> device_type ` set (sessions sample_tables)"
    by (simp add: sample_tables_def)
  then have none: "\<forall>s \<in> set (sessions sample_tables). device_type s \<noteq> ''tv''"
    by (metis imageI)
  from unknown_device_empty [OF dev, of sample_tables]
  obtain rows where seg: "get_device_users sample_tables ''tv'' = {}"
    and funnel: "calculate_funnel sample_tables ''tv'' = (0, 0, 0)"
    and rows: "calculate_metrics sample_tables ''tv'' = Inr rows"
    and empty: "rows = [] \<longleftrightarrow> (\<forall>s \<in> set (sessions sample_tables). device_type s \<noteq> ''tv'')"
    by blast
  from empty none have "rows = []"
    by (rule iffD2)
  with rows have "calculate_metrics sample_tables ''tv'' = Inr []"
    by simp
  with dev no seg funnel show ?thesis
    by (intro conjI)
qed


text \<open>
  The funnel reads the transactions through their \<^verbatim>\<open>user_id\<close> and
  \<^verbatim>\<open>transaction_type\<close> columns and the bets through their \<^verbatim>\<open>user_id\<close> column.
\<close>

lemma filter_on_columns:
  "set (map f (filter (\<lambda>t. g t = k \<and> f t \<in> R) ts)) =
     fst ` {p \<in> set (map (\<lambda>t. (f t, g t)) ts). snd p = k \<and> fst p \<in> R}"
  by force

lemma deposit_users_columns:
  "deposit_users T device =
     fst ` {p \<in> set (map (\<lambda>t. (user_id t, transaction_type t)) (transactions T)).
              snd p = ''deposit'' \<and> fst p \<in> get_device_users T device}"
  unfolding deposit_users_def registrations_users_def by (rule filter_on_columns)

lemma bet_users_columns:
  "bet_users T device = {u \<in> set (map user_id (bets T)). u \<in> deposit_users T device}"
  by (auto simp: bet_users_def)

lemma get_device_users_sessions:
  "sessions T' = sessions T \<Longrightarrow> get_device_users T' device = get_device_users T device"
  by (subst get_device_users.simps, subst (2) get_device_users.simps)
    (simp add: get_device_users_mobile get_device_users_desktop)


text \<open>
  C9. Two states of the tables with the same sessions, the same \<^verbatim>\<open>user_id\<close> and
  \<^verbatim>\<open>transaction_type\<close> columns of the transactions and the same \<^verbatim>\<open>user_id\<close> column of
  the bets have the same funnel, whatever their times and amounts. No order in time is
  asked between a deposit and a bet: a user of the segment with a deposit and a bet placed
  before it is among the bettors counted.
\<close>

theorem calculate_funnel_ignores_times_and_amounts:
  "(sessions T' = sessions T \<and>
    map (\<lambda>t. (user_id t, transaction_type t)) (transactions T') =
      map (\<lambda>t. (user_id t, transaction_type t)) (transactions T) \<and>
    map user_id (bets T') = map user_id (bets T)
      \<longrightarrow> calculate_funnel T' device = calculate_funnel T device) \<and>
   (b \<in> set (bets T) \<and> t \<in> set (transactions T) \<and> user_id b = user_id t \<and>
    transaction_type t = ''deposit'' \<and> user_id t \<in> get_device_users T device \<and>
    bet_time b < timestamp t
      \<longrightarrow> user_id b \<in> bet_users T device \<and> 1 \<le> snd (snd (calculate_funnel T device)))"
proof (intro conjI impI)
  assume eq: "sessions T' = sessions T \<and>
    map (\<lambda>t. (user_id t, transaction_type t)) (transactions T') =
      map (\<lambda>t. (user_id t, transaction_type t)) (transactions T) \<and>
    map user_id (bets T') = map user_id (bets T)"
  from eq have s: "sessions T' = sessions T"
    by (rule conjunct1)
  from eq have t: "map (\<lambda>t. (user_id t, transaction_type t)) (transactions T') =
      map (\<lambda>t. (user_id t, transaction_type t)) (transactions T)"
    by (elim conjE)
  from eq have b: "map user_id (bets T') = map user_id (bets T)"
    by (elim conjE)
  from s have seg: "get_device_users T' device = get_device_users T device"
    by (rule get_device_users_sessions)
  have dep: "deposit_users T' device = deposit_users T device"
    unfolding deposit_users_columns t seg by (rule refl)
  have "bet_users T' device = bet_users T device"
    unfolding bet_users_columns b dep by (rule refl)
  with seg dep show "calculate_funnel T' device = calculate_funnel T device"
    by (simp only: calculate_funnel_def registrations_users_def)
next
  assume h: "b \<in> set (bets T) \<and> t \<in> set (transactions T) \<and> user_id b = user_id t \<and>
    transaction_type t = ''deposit'' \<and> user_id t \<in> get_device_users T device \<and>
    bet_time b < timestamp t"
  from h have bm: "b \<in> set (bets T)" and tm: "t \<in> set (transactions T)"
    and same: "user_id b = user_id t" and dep: "transaction_type t = ''deposit''"
    and seg: "user_id t \<in> get_device_users T device"
    by simp_all
  from tm have "(user_id t, transaction_type t) \<in>
      set (map (\<lambda>t. (user_id t, transaction_type t)) (transactions T))"
    unfolding set_map by (rule imageI)
  with dep seg have "(user_id t, transaction_type t) \<in>
      {p \<in> set (map (\<lambda>t. (user_id t, transaction_type t)) (transactions T)).
         snd p = ''deposit'' \<and> fst p \<in> get_device_users T device}"
    by (simp only: mem_Collect_eq fst_conv snd_conv simp_thms)
  then have "fst (user_id t, transaction_type t) \<in> deposit_users T device"
    unfolding deposit_users_columns by (rule imageI)
  then have d: "user_id b \<in> deposit_users T device"
    unfolding same fst_conv .
  from bm have "user_id b \<in> set (map user_id (bets T))"
    unfolding set_map by (rule imageI)
  with d show mem: "user_id b \<in> bet_users T device"
    unfolding bet_users_columns by (simp only: mem_Collect_eq simp_thms)
  have "finite (bet_users T device)"
    unfolding bet_users_def by (rule finite_set)
  with mem have "card (bet_users T device) \<noteq> 0"
    by (auto simp only: card_eq_0_iff)
  then show "1 \<le> snd (snd (calculate_funnel T device))"
    by (simp add: calculate_funnel_def)
qed

theorem calculate_funnel_ignores_times_and_amounts_witness:
  "sessions sample_tables_shifted = sessions sample_tables \<and>
   map (\<lambda>t. (user_id t, transaction_type t)) (transactions sample_tables_shifted) =
     map (\<lambda>t. (user_id t, transaction_type t)) (transactions sample_tables) \<and>
   map user_id (bets sample_tables_shifted) = map user_id (bets sample_tables) \<and>
   bets sample_tables_shifted \<noteq> bets sample_tables \<and>
   transactions sample_tables_shifted \<noteq> transactions sample_tables \<and>
   calculate_funnel sample_tables_shifted ''all'' = calculate_funnel sample_tables ''all'' \<and>
   calculate_funnel sample_tables ''all'' = (4, 2, 2) \<and>
   bet_time (hd (bets sample_tables)) < timestamp (hd (transactions sample_tables)) \<and>
   user_id (hd (bets sample_tables)) \<in> bet_users sample_tables ''all''"
proof -
  let ?b = "hd (bets sample_tables)" and ?t = "hd (transactions sample_tables)"
  have agree: "sessions sample_tables_shifted = sessions sample_tables \<and>
     map (\<lambda>t. (user_id t, transaction_type t)) (transactions sample_tables_shifted) =
       map (\<lambda>t. (user_id t, transaction_type t)) (transactions sample_tables) \<and>
     map user_id (bets sample_tables_shifted) = map user_id (bets sample_tables)"
    by (simp add: sample_tables_shifted_def sample_tables_def)
  have differ: "bets sample_tables_shifted \<noteq> bets sample_tables \<and>
     transactions sample_tables_shifted \<noteq> transactions sample_tables"
    by (simp add: sample_tables_shifted_def sample_tables_def)
  have seg: "get_device_users sample_tables ''all'' = {1, 2, 4, 5}"
    by (auto simp: get_device_users_all get_device_users_mobile get_device_users_desktop
        sample_tables_def)
  have early: "?b \<in> set (bets sample_tables) \<and> ?t \<in> set (transactions sample_tables) \<and>
     user_id ?b = user_id ?t \<and> transaction_type ?t = ''deposit'' \<and>
     user_id ?t \<in> get_device_users sample_tables ''all'' \<and> bet_time ?b < timestamp ?t"
    unfolding seg by (simp add: sample_tables_def)
  have run: "calculate_funnel sample_tables ''all'' = (4, 2, 2)"
    by code_simp
  from calculate_funnel_ignores_times_and_amounts
    [of sample_tables_shifted sample_tables "''all''" ?b ?t]
  have same: "calculate_funnel sample_tables_shifted ''all'' = calculate_funnel sample_tables ''all''"
    and counted: "user_id ?b \<in> bet_users sample_tables ''all''"
    using agree early by blast+
  from early have "bet_time ?b < timestamp ?t"
    by (elim conjE)
  with agree differ same run counted show ?thesis
    by (intro conjI) (elim conjE, assumption)+
qed


section \<open>Properties of the GGR by country\<close>

text \<open>
  \<open>country_name\<close> returns for every outcome of the lookup, so the \<^verbatim>\<open>apply\<close> over the
  country column returns too.
\<close>

lemma country_name_eq:
  "country_name get code = Inr (case get code of Inr (Some name) \<Rightarrow> name | _ \<Rightarrow> code)"
  by (simp add: country_name_def lookup_name_def split: sum.split option.split)

lemma apply_country_total:
  "(\<And>c. f c = Inr (h c)) \<Longrightarrow> apply_country f rows = Inr (map (\<lambda>(c, g). (h c, g)) rows)"
  by (induction rows) auto

lemma ggr_by_country_rows:
  "ggr_by_country get T device =
     Inr (map (\<lambda>(code, ggr). (case get code of Inr (Some name) \<Rightarrow> name | _ \<Rightarrow> code, ggr))
            (groupby_country_sum (merge_left (filtered_bets T device) (users T))))"
  unfolding ggr_by_country_def Let_def
  by (rule apply_country_total) (rule country_name_eq)

text \<open>
  C8. \<^verbatim>\<open>ggr_by_country\<close> always returns a frame, whatever the lookup does: the frame of
  the groups with every country code replaced by the name the lookup finds, and by the code
  itself where the lookup returns \<^verbatim>\<open>None\<close> or raises.
\<close>

theorem ggr_by_country_names:
  "ggr_by_country get T device =
     Inr (map (\<lambda>(code, ggr). (case get code of Inr (Some name) \<Rightarrow> name | _ \<Rightarrow> code, ggr))
            (groupby_country_sum (merge_left (filtered_bets T device) (users T)))) \<and>
   (get code = Inr (Some name) \<longrightarrow> country_name get code = Inr name) \<and>
   (get code = Inr None \<longrightarrow> country_name get code = Inr code) \<and>
   (get code = Inl e \<longrightarrow> country_name get code = Inr code)"
  by (simp add: ggr_by_country_rows country_name_eq)

theorem ggr_by_country_names_witness:
  "sample_get ''UA'' = Inr (Some ''Ukraine'') \<and> country_name sample_get ''UA'' = Inr ''Ukraine'' \<and>
   sample_get ''PL'' = Inr None \<and> country_name sample_get ''PL'' = Inr ''PL'' \<and>
   sample_get ''??'' = Inl LookupError \<and> country_name sample_get ''??'' = Inr ''??'' \<and>
   ggr_by_country sample_get sample_tables ''all'' = Inr [(''??'', 2), (''Ukraine'', 7)]"
proof -
  have ua: "sample_get ''UA'' = Inr (Some ''Ukraine'')"
    and pl: "sample_get ''PL'' = Inr None"
    and qq: "sample_get ''??'' = Inl LookupError"
    by (simp_all add: sample_get_def)
  have groups: "groupby_country_sum (merge_left (filtered_bets sample_tables ''all'')
      (users sample_tables)) = [(''??'', 2), (''UA'', 7)]"
    by code_simp
  from ggr_by_country_names [of sample_get sample_tables "''all''" "''UA''" "''Ukraine''"] ua
  have ua': "country_name sample_get ''UA'' = Inr ''Ukraine''"
    by blast
  from ggr_by_country_names [of sample_get sample_tables "''all''" "''PL''"] pl
  have pl': "country_name sample_get ''PL'' = Inr ''PL''"
    by blast
  from ggr_by_country_names [of sample_get sample_tables "''all''" "''??''" _ LookupError] qq
  have qq': "country_name sample_get ''??'' = Inr ''??''"
    by blast
  from ggr_by_country_names [of sample_get sample_tables "''all''"]
  have "ggr_by_country sample_get sample_tables ''all'' =
      Inr (map (\<lambda>(code, ggr).
          (case sample_get code of Inr (Some name) \<Rightarrow> name | _ \<Rightarrow> code, ggr))
        (groupby_country_sum (merge_left (filtered_bets sample_tables ''all'')
          (users sample_tables))))"
    by (rule conjunct1)
  then have run: "ggr_by_country sample_get sample_tables ''all'' =
      Inr [(''??'', 2), (''Ukraine'', 7)]"
    unfolding groups by (simp add: ua qq)
  from ua ua' pl pl' qq qq' run show ?thesis
    by (intro conjI)
qed

text \<open>
  C10. Both branches of \<^verbatim>\<open>ggr_by_country\<close> select the bets of the users of
  \<open>get_device_users T device\<close>, so for every device value the function is the uniform
  computation \<open>ggr_uniform\<close> followed by the replacement of the country codes.
\<close>

theorem ggr_branches_uniform:
  "filtered_bets T device = filter (\<lambda>b. user_id b \<in> get_device_users T device) (bets T) \<and>
   ggr_by_country get T device = apply_country (country_name get) (ggr_uniform T device)"
  by (simp add: filtered_bets_def ggr_by_country_def ggr_uniform_def Let_def)

theorem ggr_branches_uniform_witness:
  "ggr_by_country sample_get sample_tables ''all'' =
     apply_country (country_name sample_get) (ggr_uniform sample_tables ''all'') \<and>
   ggr_uniform sample_tables ''all'' = [(''??'', 2), (''UA'', 7)] \<and>
   ggr_by_country sample_get sample_tables ''mobile'' =
     apply_country (country_name sample_get) (ggr_uniform sample_tables ''mobile'') \<and>
   ggr_uniform sample_tables ''mobile'' = [(''??'', 2)]"
proof -
  have a: "ggr_uniform sample_tables ''all'' = [(''??'', 2), (''UA'', 7)]"
    by code_simp
  have m: "ggr_uniform sample_tables ''mobile'' = [(''??'', 2)]"
    by code_simp
  from ggr_branches_uniform [of sample_tables "''all''" sample_get]
  have a': "ggr_by_country sample_get sample_tables ''all'' =
     apply_country (country_name sample_get) (ggr_uniform sample_tables ''all'')"
    by (rule conjunct2)
  from ggr_branches_uniform [of sample_tables "''mobile''" sample_get]
  have m': "ggr_by_country sample_get sample_tables ''mobile'' =
     apply_country (country_name sample_get) (ggr_uniform sample_tables ''mobile'')"
    by (rule conjunct2)
  from a' a m' m show ?thesis
    by (intro conjI)
qed

text \<open>The left join and the group-by, on bets whose user has no row in \<open>users\<close>.\<close>

lemma no_match_iff:
  "filter (\<lambda>u. user_id u = k) us = [] \<longleftrightarrow> k \<notin> user_id ` set us"
  by (auto simp: filter_empty_conv)

lemma merge_left_Cons:
  "merge_left (b # bs) us =
     (case filter (\<lambda>u. user_id u = user_id b) us of
        [] \<Rightarrow> [(b, None)]
      | ms \<Rightarrow> map (\<lambda>u. (b, Some u)) ms) @ merge_left bs us"
  by (simp add: merge_left_def)

lemma merge_left_Nil: "merge_left [] us = []"
  by (simp add: merge_left_def)

text \<open>The left join keeps a bet without a user row, with the user columns missing.\<close>

lemma merge_left_absent:
  "b \<in> set bs \<Longrightarrow> user_id b \<notin> user_id ` set us \<Longrightarrow> (b, None) \<in> set (merge_left bs us)"
proof (induction bs)
  case Nil
  then show ?case by simp
next
  case (Cons a bs)
  show ?case
  proof (cases "a = b")
    case True
    with Cons.prems have "filter (\<lambda>u. user_id u = user_id a) us = []"
      by (simp add: no_match_iff)
    then show ?thesis
      using True by (simp add: merge_left_Cons)
  next
    case False
    with Cons show ?thesis
      by (simp add: merge_left_Cons)
  qed
qed

text \<open>Deleting the bets without a user row deletes the joined rows without a user.\<close>

lemma merge_left_known:
  "merge_left (filter (\<lambda>b. user_id b \<in> user_id ` set us) bs) us =
     filter (\<lambda>r. snd r \<noteq> None) (merge_left bs us)"
proof (induction bs)
  case Nil
  show ?case by (simp add: merge_left_Nil)
next
  case (Cons b bs)
  show ?case
  proof (cases "filter (\<lambda>u. user_id u = user_id b) us")
    case Nil
    then have "user_id b \<notin> user_id ` set us"
      by (simp add: no_match_iff)
    with Nil Cons.IH show ?thesis
      by (simp add: merge_left_Cons)
  next
    case (Cons u ms)
    then have "filter (\<lambda>u. user_id u = user_id b) us \<noteq> []"
      by simp
    then have "user_id b \<in> user_id ` set us"
      by (simp add: no_match_iff)
    with Cons Cons.IH show ?thesis
      by (simp add: merge_left_Cons filter_map comp_def)
  qed
qed

text \<open>The group-by does not see the joined rows without a user.\<close>

lemma joined_country_no_user: "snd r = None \<Longrightarrow> joined_country r = None"
  by (simp add: joined_country_def)

lemma keys_drop_no_user:
  "filter (\<lambda>k. k \<noteq> None) (map joined_country (filter (\<lambda>r. snd r \<noteq> None) rs)) =
     filter (\<lambda>k. k \<noteq> None) (map joined_country rs)"
  by (induction rs) (auto simp: joined_country_no_user)

lemma group_drop_no_user:
  "filter (\<lambda>r. joined_country r = Some c) (filter (\<lambda>r. snd r \<noteq> None) rs) =
     filter (\<lambda>r. joined_country r = Some c) rs"
  by (induction rs) (auto simp: joined_country_no_user)

lemma groupby_country_sum_known:
  "groupby_country_sum (filter (\<lambda>r. snd r \<noteq> None) rs) = groupby_country_sum rs"
  unfolding groupby_country_sum_def keys_drop_no_user group_drop_no_user by (rule refl)

lemma filtered_bets_update:
  "filtered_bets (T\<lparr>bets := filter Q (bets T)\<rparr>) device = filter Q (filtered_bets T device)"
proof -
  have "get_device_users (T\<lparr>bets := filter Q (bets T)\<rparr>) d = get_device_users T d" for d
    by (rule get_device_users_sessions) simp
  then show ?thesis
    by (simp add: filtered_bets_def Let_def conj_commute)
qed

text \<open>
  C1, as the code has it. User 1 of the sample has a desktop session and a bet of 5 and no row
  in \<open>users\<close>; the frame that \<^verbatim>\<open>ggr_by_country\<close> returns for \<^verbatim>\<open>"desktop"\<close> has the
  row of the other desktop user only, and the 5 is under no key.
\<close>

theorem ggr_absent_user_counterexample:
  "\<lparr>user_id = 1, bet_time = 5, bet_amount = 5\<rparr> \<in> set (filtered_bets sample_tables ''desktop'') \<and>
   1 \<notin> user_id ` set (users sample_tables) \<and>
   ggr_by_country sample_get sample_tables ''desktop'' = Inr [(''Ukraine'', 7)]"
proof -
  have "\<lparr>user_id = 1, bet_time = 5, bet_amount = 5\<rparr> \<in> set (filtered_bets sample_tables ''desktop'')"
    by code_simp
  moreover have "1 \<notin> user_id ` set (users sample_tables)"
    by (simp add: sample_tables_def)
  moreover have "ggr_by_country sample_get sample_tables ''desktop'' = Inr [(''Ukraine'', 7)]"
    by code_simp
  ultimately show ?thesis
    by (intro conjI)
qed

text \<open>
  C1, amended. For every device value \<^verbatim>\<open>ggr_by_country\<close> returns a frame; a selected bet
  whose \<^verbatim>\<open>user_id\<close> has no row in \<open>users\<close> is kept by the left join, with the user
  columns missing; and the frame returned is the one returned when every bet without a user
  row is deleted from \<open>bets\<close>: the group-by leaves the rows with a missing country out.
\<close>

theorem ggr_absent_user_left_out:
  "\<exists>rows. ggr_by_country get T device = Inr rows \<and>
     (\<forall>b \<in> set (filtered_bets T device). user_id b \<notin> user_id ` set (users T) \<longrightarrow>
        (b, None) \<in> set (merge_left (filtered_bets T device) (users T))) \<and>
     ggr_by_country get (T\<lparr>bets := filter (\<lambda>b. user_id b \<in> user_id ` set (users T)) (bets T)\<rparr>)
       device = Inr rows"
proof -
  let ?T' = "T\<lparr>bets := filter (\<lambda>b. user_id b \<in> user_id ` set (users T)) (bets T)\<rparr>"
  have u: "users ?T' = users T"
    by simp
  have "groupby_country_sum (merge_left (filtered_bets ?T' device) (users ?T')) =
      groupby_country_sum (merge_left (filtered_bets T device) (users T))"
    unfolding u filtered_bets_update merge_left_known groupby_country_sum_known
    by (rule refl)
  then have "ggr_by_country get ?T' device = ggr_by_country get T device"
    by (simp only: ggr_by_country_rows)
  then show ?thesis
    by (simp add: ggr_by_country_rows merge_left_absent)
qed

theorem ggr_absent_user_left_out_witness:
  "\<lparr>user_id = 1, bet_time = 5, bet_amount = 5\<rparr> \<in> set (filtered_bets sample_tables ''desktop'') \<and>
   1 \<notin> user_id ` set (users sample_tables) \<and>
   (\<lparr>user_id = 1, bet_time = 5, bet_amount = 5\<rparr>, None) \<in>
     set (merge_left (filtered_bets sample_tables ''desktop'') (users sample_tables)) \<and>
   ggr_by_country sample_get sample_tables ''desktop'' = Inr [(''Ukraine'', 7)] \<and>
   ggr_by_country sample_get
     (sample_tables\<lparr>bets :=
        filter (\<lambda>b. user_id b \<in> user_id ` set (users sample_tables)) (bets sample_tables)\<rparr>)
     ''desktop'' = Inr [(''Ukraine'', 7)]"
proof -
  let ?b = "\<lparr>user_id = 1, bet_time = 5, bet_amount = 5\<rparr>"
  let ?T' = "sample_tables\<lparr>bets :=
        filter (\<lambda>b. user_id b \<in> user_id ` set (users sample_tables)) (bets sample_tables)\<rparr>"
  have b: "?b \<in> set (filtered_bets sample_tables ''desktop'')"
    by code_simp
  have u: "user_id ?b \<notin> user_id ` set (users sample_tables)"
    by (simp add: sample_tables_def)
  have run: "ggr_by_country sample_get sample_tables ''desktop'' = Inr [(''Ukraine'', 7)]"
    by code_simp
  from ggr_absent_user_left_out [of sample_get sample_tables "''desktop''"]
  obtain rows where rows: "ggr_by_country sample_get sample_tables ''desktop'' = Inr rows"
    and kept: "\<forall>b \<in> set (filtered_bets sample_tables ''desktop'').
        user_id b \<notin> user_id ` set (users sample_tables) \<longrightarrow>
        (b, None) \<in> set (merge_left (filtered_bets sample_tables ''desktop'') (users sample_tables))"
    and same: "ggr_by_country sample_get ?T' ''desktop'' = Inr rows"
    by blast
  from kept b u have j: "(?b, None) \<in>
      set (merge_left (filtered_bets sample_tables ''desktop'') (users sample_tables))"
    by blast
  from rows run have "rows = [(''Ukraine'', 7)]"
    by simp
  with same have s: "ggr_by_country sample_get ?T' ''desktop'' = Inr [(''Ukraine'', 7)]"
    by simp
  from u have u': "1 \<notin> user_id ` set (users sample_tables)"
    by simp
  from b u' j run s show ?thesis
    by (intro conjI)
qed


end
